theory Spec2Isabelle
  imports Main
begin

section \<open>Python strings and POSIX path helpers\<close>

text \<open>
  Python \<open>str\<close> values are modelled as \<open>string\<close>. The helpers below follow the
  standard library functions that \<open>lib/bb/parse/__init__.py\<close> calls
  (\<open>str.startswith\<close>, \<open>str.endswith\<close>, \<open>str.split\<close>, \<open>str.rfind\<close>,
  \<open>os.path.isabs\<close>, \<open>os.path.basename\<close>, \<open>os.path.splitext\<close>, \<open>os.path.join\<close>)
  on a POSIX platform.
\<close>

type_synonym path = string

definition startswith :: "string \<Rightarrow> string \<Rightarrow> bool" where
  "startswith s pre = (take (length pre) s = pre)"

definition endswith :: "string \<Rightarrow> string \<Rightarrow> bool" where
  "endswith s suf = (length suf \<le> length s \<and> drop (length s - length suf) s = suf)"

text \<open>\<open>s.split(c)\<close> for a one-character separator: never empty, keeps empty segments.\<close>

fun split_chr :: "char \<Rightarrow> string \<Rightarrow> string list" where
  "split_chr c [] = [[]]"
| "split_chr c (x # xs) =
     (if x = c then [] # split_chr c xs
      else (case split_chr c xs of
              [] \<Rightarrow> [[x]]
            | w # ws \<Rightarrow> (x # w) # ws))"

text \<open>\<open>s.rfind(c)\<close>: the highest index holding \<open>c\<close>, or \<open>-1\<close>.\<close>

definition rfind :: "char \<Rightarrow> string \<Rightarrow> int" where
  "rfind c s = int (length s) - 1 - int (length (takeWhile (\<lambda>x. x \<noteq> c) (rev s)))"

definition isabs :: "path \<Rightarrow> bool" where
  "isabs p = startswith p ''/''"

text \<open>\<open>posixpath.basename\<close>: \<open>i = p.rfind('/') + 1; return p[i:]\<close>.\<close>

definition basename :: "path \<Rightarrow> path" where
  "basename p = drop (nat (rfind CHR ''/'' p + 1)) p"

text \<open>
  \<open>posixpath.splitext\<close> (\<open>genericpath._splitext\<close>): the extension starts at the last
  dot of the last component, unless only dots precede it there.
\<close>

definition splitext :: "path \<Rightarrow> path \<times> string" where
  "splitext p =
     (let sepIndex = rfind CHR ''/'' p;
          dotIndex = rfind CHR ''.'' p
      in if dotIndex > sepIndex \<and>
            list_ex (\<lambda>c. c \<noteq> CHR ''.'')
              (take (nat (dotIndex - (sepIndex + 1))) (drop (nat (sepIndex + 1)) p))
         then (take (nat dotIndex) p, drop (nat dotIndex) p)
         else (p, []))"

text \<open>\<open>posixpath.join(a, b)\<close> for two components.\<close>

definition path_join :: "path \<Rightarrow> path \<Rightarrow> path" where
  "path_join a b =
     (if startswith b ''/'' then b
      else if a = [] \<or> endswith a ''/'' then a @ b
      else a @ ''/'' @ b)"

section \<open>Exceptions of the parse module\<close>

text \<open>
  \<open>ParseError msg filename lineno\<close> is the module's own exception class;
  \<open>IOError errno msg\<close> is raised by \<open>resolve_file\<close>; \<open>OSError\<close> is what a failing
  \<open>os.stat\<close> raises.
\<close>

datatype exn =
    ParseError string path nat
  | IOError nat string
  | OSError

definition ENOENT :: nat where
  "ENOENT = 2"

section \<open>Filename decomposition: \<open>vars_from_file\<close>\<close>

text \<open>
  \<open>__pkgsplit_cache__\<close> is a module-level dictionary from the full filename to the
  list object \<open>parts\<close>. The list is stored in the dictionary before the length check and
  is extended in place afterwards, so the dictionary holds the padded list when the call
  returns and the unpadded list when the call raises.
\<close>

type_synonym pkgsplit_cache = "string \<rightharpoonup> string option list"

text \<open>The padding loop \<open>while exp != 0: exp -= 1; tmplist.append(None)\<close>.\<close>

fun pad_loop :: "nat \<Rightarrow> string option list \<Rightarrow> string option list" where
  "pad_loop 0 tmplist = tmplist"
| "pad_loop (Suc exp) tmplist = pad_loop exp (tmplist @ [None])"

text \<open>
  The result is the raised exception or the returned sequence (the tuple
  \<open>(None, None, None)\<close> and the list \<open>parts\<close> are both rendered as lists), together with
  the updated cache. The argument \<open>d\<close> of the source is unused and left out.
\<close>

definition vars_from_file ::
  "string \<Rightarrow> pkgsplit_cache \<Rightarrow> (exn + string option list) \<times> pkgsplit_cache" where
  "vars_from_file mypkg cache =
     (if mypkg = [] \<or> \<not> (endswith mypkg ''.bb'' \<or> endswith mypkg ''.bbappend'')
      then (Inr [None, None, None], cache)
      else (case cache mypkg of
              Some cached \<Rightarrow> (Inr cached, cache)
            | None \<Rightarrow>
                (let myfile = splitext (basename mypkg);
                     parts = map Some (split_chr CHR ''_'' (fst myfile))
                 in if length parts > 3
                    then (Inl (ParseError
                            ''Unable to generate default variables from filename (too many underscores)''
                            mypkg 0),
                          cache(mypkg \<mapsto> parts))
                    else (let parts' = parts @ pad_loop (3 - length parts) []
                          in (Inr parts', cache(mypkg \<mapsto> parts'))))))"

section \<open>The file system as \<open>os.stat\<close> sees it\<close>

text \<open>
  The fields of \<open>os.stat_result\<close> that the module reads. A path maps to its stat result,
  or to \<open>None\<close> where \<open>os.stat\<close> raises \<open>OSError\<close>. \<open>os.path.exists\<close> and
  \<open>os.path.isfile\<close> are the standard library's wrappers around \<open>os.stat\<close>.
\<close>

record stat_result =
  st_mode :: int
  st_ino :: int
  st_size :: int
  st_mtime_ns :: int

type_synonym filesystem = "path \<rightharpoonup> stat_result"

text \<open>\<open>stat.S_ISREG(mode)\<close>: \<open>(mode & 0o170000) == 0o100000\<close>.\<close>

definition S_ISREG :: "int \<Rightarrow> bool" where
  "S_ISREG mode = (and mode 61440 = 32768)"

definition path_exists :: "filesystem \<Rightarrow> path \<Rightarrow> bool" where
  "path_exists fs p = (fs p \<noteq> None)"

definition isfile :: "filesystem \<Rightarrow> path \<Rightarrow> bool" where
  "isfile fs p = (case fs p of None \<Rightarrow> False | Some res \<Rightarrow> S_ISREG (st_mode res))"

text \<open>The process environment: the file system and \<open>os.getcwd()\<close>.\<close>

record env =
  filesys :: filesystem
  getcwd :: path

section \<open>The stat cache\<close>

text \<open>
  A fingerprint is the tuple \<open>(st_mtime_ns, st_size, st_ino)\<close> or the integer \<open>0\<close>
  (\<open>Absent\<close>). The dictionary \<open>__mtime_cache\<close> can hold any Python value, so the model's
  cache maps a path to a \<open>fingerprint\<close>, sentinel included; that it never holds the
  sentinel is a property to prove, not a property of the type.

  \<open>stat_calls\<close> is the log of the \<open>os.stat\<close> calls made by the stat-cache functions, in
  order; it exists to state which calls touch the file system.
\<close>

datatype fingerprint = Absent | Fingerprint int int int

definition fingerprint_of :: "stat_result \<Rightarrow> fingerprint" where
  "fingerprint_of res = Fingerprint (st_mtime_ns res) (st_size res) (st_ino res)"

record stat_state =
  mtime_cache :: "path \<rightharpoonup> fingerprint"
  stat_calls :: "path list"

definition init_stat_state :: stat_state where
  "init_stat_state = \<lparr>mtime_cache = Map.empty, stat_calls = []\<rparr>"

definition os_stat :: "filesystem \<Rightarrow> path \<Rightarrow> stat_state \<Rightarrow> stat_result option \<times> stat_state" where
  "os_stat fs f st = (fs f, st\<lparr>stat_calls := stat_calls st @ [f]\<rparr>)"

definition cached_mtime ::
  "filesystem \<Rightarrow> path \<Rightarrow> stat_state \<Rightarrow> (exn + fingerprint) \<times> stat_state" where
  "cached_mtime fs f st =
     (case mtime_cache st f of
        Some v \<Rightarrow> (Inr v, st)
      | None \<Rightarrow>
          (case os_stat fs f st of
             (None, st1) \<Rightarrow> (Inl OSError, st1)
           | (Some res, st1) \<Rightarrow>
               (Inr (fingerprint_of res),
                st1\<lparr>mtime_cache := (mtime_cache st1)(f \<mapsto> fingerprint_of res)\<rparr>)))"

definition cached_mtime_noerror ::
  "filesystem \<Rightarrow> path \<Rightarrow> stat_state \<Rightarrow> fingerprint \<times> stat_state" where
  "cached_mtime_noerror fs f st =
     (case mtime_cache st f of
        Some v \<Rightarrow> (v, st)
      | None \<Rightarrow>
          (case os_stat fs f st of
             (None, st1) \<Rightarrow> (Absent, st1)
           | (Some res, st1) \<Rightarrow>
               (fingerprint_of res,
                st1\<lparr>mtime_cache := (mtime_cache st1)(f \<mapsto> fingerprint_of res)\<rparr>)))"

definition check_mtime ::
  "filesystem \<Rightarrow> path \<Rightarrow> fingerprint \<Rightarrow> stat_state \<Rightarrow> bool \<times> stat_state" where
  "check_mtime fs f mtime st =
     (case os_stat fs f st of
        (Some res, st1) \<Rightarrow>
          (let current_mtime = fingerprint_of res
           in (current_mtime = mtime,
               st1\<lparr>mtime_cache := (mtime_cache st1)(f \<mapsto> current_mtime)\<rparr>))
      | (None, st1) \<Rightarrow> (Absent = mtime, st1))"

definition update_mtime :: "filesystem \<Rightarrow> path \<Rightarrow> stat_state \<Rightarrow> fingerprint \<times> stat_state" where
  "update_mtime fs f st =
     (case os_stat fs f st of
        (Some res, st1) \<Rightarrow>
          (fingerprint_of res,
           st1\<lparr>mtime_cache := (mtime_cache st1)(f \<mapsto> fingerprint_of res)\<rparr>)
      | (None, st1) \<Rightarrow>
          (Absent,
           if mtime_cache st1 f \<noteq> None
           then st1\<lparr>mtime_cache := (mtime_cache st1)(f := None)\<rparr>
           else st1))"

definition update_cache :: "filesystem \<Rightarrow> path \<Rightarrow> stat_state \<Rightarrow> stat_state" where
  "update_cache fs f st =
     (if mtime_cache st f \<noteq> None then snd (update_mtime fs f st) else st)"

definition clear_cache :: "stat_state \<Rightarrow> stat_state" where
  "clear_cache st = st\<lparr>mtime_cache := Map.empty\<rparr>"

text \<open>
  The fingerprint a fresh \<open>os.stat\<close> yields now: what the specification calls the current
  fingerprint of a path.
\<close>

definition current_fingerprint :: "filesystem \<Rightarrow> path \<Rightarrow> fingerprint" where
  "current_fingerprint fs f = (case fs f of None \<Rightarrow> Absent | Some res \<Rightarrow> fingerprint_of res)"

text \<open>Any sequence of stat-cache calls, each against the file system of its moment.\<close>

datatype cache_op =
    CachedMtime path
  | CachedMtimeNoerror path
  | CheckMtime path fingerprint
  | UpdateMtime path
  | UpdateCache path
  | ClearCache

fun run_op :: "filesystem \<Rightarrow> cache_op \<Rightarrow> stat_state \<Rightarrow> stat_state" where
  "run_op fs (CachedMtime f) st = snd (cached_mtime fs f st)"
| "run_op fs (CachedMtimeNoerror f) st = snd (cached_mtime_noerror fs f st)"
| "run_op fs (CheckMtime f m) st = snd (check_mtime fs f m st)"
| "run_op fs (UpdateMtime f) st = snd (update_mtime fs f st)"
| "run_op fs (UpdateCache f) st = update_cache fs f st"
| "run_op fs ClearCache st = clear_cache st"

fun run_ops :: "(filesystem \<times> cache_op) list \<Rightarrow> stat_state \<Rightarrow> stat_state" where
  "run_ops [] st = st"
| "run_ops ((fs, op) # rest) st = run_ops rest (run_op fs op st)"

definition no_sentinel :: "stat_state \<Rightarrow> bool" where
  "no_sentinel st = (\<forall>f. mtime_cache st f \<noteq> Some Absent)"


section \<open>The build context and the dependency recorder\<close>

text \<open>
  The build context \<open>d\<close> is an opaque key-value store; the record has one field for each
  variable the module reads or writes (\<open>__depends\<close>, \<open>BBPATH\<close>; \<open>None\<close> is what
  \<open>getVar\<close> returns for an unset variable) and one for its inclusion history, the chain
  of files being included, innermost first.
\<close>

record datastore =
  var_depends :: "(path \<times> fingerprint) list option"
  var_BBPATH :: "string option"
  inchistory :: "path list"

text \<open>
  Modelled from the spec: \<open>d.inchistory.include(fn)\<close> belongs to the data store
  (\<open>lib/bb/data_smart.py\<close>), which is not among the sources. The specification describes
  a nested scope with enter/exit semantics that tracks the file being processed:
  entering pushes the file on the active chain, leaving pops it.
\<close>

definition include_enter :: "path \<Rightarrow> datastore \<Rightarrow> datastore" where
  "include_enter fn d = d\<lparr>inchistory := fn # inchistory d\<rparr>"

definition include_exit :: "datastore \<Rightarrow> datastore" where
  "include_exit d = d\<lparr>inchistory := tl (inchistory d)\<rparr>"

text \<open>\<open>d.getVar('__depends', False) or []\<close>.\<close>

definition get_depends :: "datastore \<Rightarrow> (path \<times> fingerprint) list" where
  "get_depends d = (case var_depends d of None \<Rightarrow> [] | Some deps \<Rightarrow> deps)"

text \<open>The path \<open>mark_dependency\<close> records: a leading \<open>./\<close> is replaced by the working directory.\<close>

definition dep_path :: "env \<Rightarrow> path \<Rightarrow> path" where
  "dep_path e f = (if startswith f ''./'' then getcwd e @ ''/'' @ drop 2 f else f)"

definition mark_dependency ::
  "env \<Rightarrow> datastore \<Rightarrow> path \<Rightarrow> stat_state \<Rightarrow> datastore \<times> stat_state" where
  "mark_dependency e d f st =
     (let f' = dep_path e f;
          deps = get_depends d;
          (fp, st1) = cached_mtime_noerror (filesys e) f' st;
          s = (f', fp)
      in if s \<notin> set deps
         then (d\<lparr>var_depends := Some (deps @ [s])\<rparr>, st1)
         else (d, st1))"

definition check_dependency ::
  "env \<Rightarrow> datastore \<Rightarrow> path \<Rightarrow> stat_state \<Rightarrow> bool \<times> stat_state" where
  "check_dependency e d f st =
     (let (fp, st1) = cached_mtime_noerror (filesys e) f st;
          s = (f, fp);
          deps = get_depends d
      in (s \<in> set deps, st1))"

section \<open>Path resolution: \<open>resolve_file\<close>\<close>

text \<open>
  Modelled from the spec: \<open>bb.utils.which(path, item, history=True)\<close> lives in
  \<open>lib/bb/utils.py\<close>, which is not among the sources. The specification describes an
  ordered, delimiter-separated list of search directories, probed in order; every probed
  candidate is reported, and the first one that exists is the hit. No hit is the empty
  string.
\<close>

fun which_loop :: "filesystem \<Rightarrow> path list \<Rightarrow> path \<Rightarrow> path list \<Rightarrow> path \<times> path list" where
  "which_loop fsys [] item hist = ([], hist)"
| "which_loop fsys (p # paths) item hist =
     (let next = path_join p item;
          hist' = hist @ [next]
      in if path_exists fsys next then (next, hist')
         else which_loop fsys paths item hist')"

text \<open>The directories searched: \<open>(path or "").split(':')\<close>.\<close>

definition search_paths :: "string option \<Rightarrow> path list" where
  "search_paths bbpath = split_chr CHR '':'' (case bbpath of None \<Rightarrow> [] | Some s \<Rightarrow> s)"

definition which :: "filesystem \<Rightarrow> string option \<Rightarrow> path \<Rightarrow> path \<times> path list" where
  "which fsys bbpath item = which_loop fsys (search_paths bbpath) item []"

text \<open>\<open>"%s" % v\<close> for a value that is a string or \<open>None\<close>.\<close>

definition py_str :: "string option \<Rightarrow> string" where
  "py_str v = (case v of None \<Rightarrow> ''None'' | Some s \<Rightarrow> s)"

text \<open>The loop \<open>for af in attempts: mark_dependency(d, af)\<close>.\<close>

fun mark_attempts ::
  "env \<Rightarrow> path list \<Rightarrow> datastore \<Rightarrow> stat_state \<Rightarrow> datastore \<times> stat_state" where
  "mark_attempts e [] d st = (d, st)"
| "mark_attempts e (af # attempts) d st =
     (case mark_dependency e d af st of (d1, st1) \<Rightarrow> mark_attempts e attempts d1 st1)"

definition resolve_file ::
  "env \<Rightarrow> path \<Rightarrow> datastore \<Rightarrow> stat_state \<Rightarrow> (exn + path) \<times> datastore \<times> stat_state" where
  "resolve_file e fn d st =
     (if \<not> isabs fn
      then (let bbpath = var_BBPATH d;
                (newfn, attempts) = which (filesys e) bbpath fn;
                (d1, st1) = mark_attempts e attempts d st
            in if newfn = []
               then (Inl (IOError ENOENT (''file '' @ fn @ '' not found in '' @ py_str bbpath)),
                     d1, st1)
               else if \<not> isfile (filesys e) newfn
               then (Inl (IOError ENOENT (''file '' @ newfn @ '' not found'')), d1, st1)
               else (Inr newfn, d1, st1))
      else (let (d1, st1) = mark_dependency e d fn st
            in if \<not> isfile (filesys e) fn
               then (Inl (IOError ENOENT (''file '' @ fn @ '' not found'')), d1, st1)
               else (Inr fn, d1, st1)))"

section \<open>Handler registry and dispatch\<close>

text \<open>
  A handler descriptor is a dictionary of callables. The predicate is a function of the
  path and the context; the entry point takes the path, the context, \<open>include\<close> and
  \<open>baseconfig\<close>, and returns or raises, leaving an updated context. The dispatcher's
  call log lists, in order, the registry positions of the handlers whose entry point was
  called.
\<close>

record 'r handler =
  h_supports :: "path \<Rightarrow> datastore \<Rightarrow> bool"
  h_handle :: "path \<Rightarrow> datastore \<Rightarrow> int \<Rightarrow> bool \<Rightarrow> (exn + 'r) \<times> datastore"

fun supports :: "'r handler list \<Rightarrow> path \<Rightarrow> datastore \<Rightarrow> bool" where
  "supports [] fn d = False"
| "supports (h # hs) fn d = (if h_supports h fn d then True else supports hs fn d)"

text \<open>
  The loop of \<open>handle\<close> from registry position \<open>i\<close> on. The \<open>with\<close> block leaves the
  inclusion scope whether the entry point returns or raises.
\<close>

fun handle_from ::
  "nat \<Rightarrow> 'r handler list \<Rightarrow> path \<Rightarrow> datastore \<Rightarrow> int \<Rightarrow> bool \<Rightarrow> nat list
     \<Rightarrow> (exn + 'r) \<times> datastore \<times> nat list" where
  "handle_from i [] fn d incl baseconfig calls =
     (Inl (ParseError ''not a BitBake file'' fn 0), d, calls)"
| "handle_from i (h # hs) fn d incl baseconfig calls =
     (if h_supports h fn d
      then (case h_handle h fn (include_enter fn d) incl baseconfig of
              (r, d') \<Rightarrow> (r, include_exit d', calls @ [i]))
      else handle_from (Suc i) hs fn d incl baseconfig calls)"

definition handle ::
  "'r handler list \<Rightarrow> path \<Rightarrow> datastore \<Rightarrow> int \<Rightarrow> bool \<Rightarrow> (exn + 'r) \<times> datastore \<times> nat list" where
  "handle handlers fn d incl baseconfig = handle_from 0 handlers fn d incl baseconfig []"

section \<open>Variable-dependency annotations: \<open>vardeps\<close>\<close>

text \<open>
  A function object with the two attributes the decorators set; \<open>None\<close> is a function
  without the attribute (\<open>hasattr\<close> is false).
\<close>

record pyfunc =
  func_name :: string
  bb_vardeps :: "string set option"
  bb_vardepsexclude :: "string set option"

definition vardeps :: "string list \<Rightarrow> pyfunc \<Rightarrow> pyfunc" where
  "vardeps varnames f =
     (let f1 = (if bb_vardeps f = None then f\<lparr>bb_vardeps := Some {}\<rparr> else f)
      in f1\<lparr>bb_vardeps := map_option (\<lambda>s. s \<union> set varnames) (bb_vardeps f1)\<rparr>)"

definition vardepsexclude :: "string list \<Rightarrow> pyfunc \<Rightarrow> pyfunc" where
  "vardepsexclude varnames f =
     (let f1 = (if bb_vardepsexclude f = None then f\<lparr>bb_vardepsexclude := Some {}\<rparr> else f)
      in f1\<lparr>bb_vardepsexclude := map_option (\<lambda>s. s \<union> set varnames) (bb_vardepsexclude f1)\<rparr>)"

section \<open>The S3 fetcher's boto3 paths\<close>

text \<open>
  \<open>e.response['Error']['Code']\<close> is a Python value: a string or an integer. Python's
  \<open>==\<close> between a string and an integer is false, which the datatype's equality gives.
  A boto3 call returns, raises \<open>ClientError\<close> with such a code, or raises something else.
\<close>

datatype error_code = CodeStr string | CodeInt int

datatype boto_outcome = Returns | RaisesClientError error_code | RaisesOther string

datatype fetch_exn = FetchError string | Propagated string

record urldata =
  ud_url :: string
  ud_host :: string
  ud_path :: string
  ud_localpath :: string

record s3_client =
  head_object :: "string \<Rightarrow> string \<Rightarrow> boto_outcome"
  download_file :: "string \<Rightarrow> string \<Rightarrow> string \<Rightarrow> boto_outcome"

text \<open>Decimal rendering, for an integer code inside an f-string.\<close>

fun str_nat :: "nat \<Rightarrow> string" where
  "str_nat n =
     (if n < 10 then [''0123456789'' ! n]
      else str_nat (n div 10) @ [''0123456789'' ! (n mod 10)])"

definition str_code :: "error_code \<Rightarrow> string" where
  "str_code c =
     (case c of
        CodeStr s \<Rightarrow> s
      | CodeInt i \<Rightarrow> (if i < 0 then ''-'' @ str_nat (nat (- i)) else str_nat (nat i)))"

definition lstrip_slash :: "string \<Rightarrow> string" where
  "lstrip_slash s = dropWhile (\<lambda>c. c = CHR ''/'') s"

definition boto_checkstatus :: "s3_client \<Rightarrow> urldata \<Rightarrow> fetch_exn + bool" where
  "boto_checkstatus s3 ud =
     (let key = lstrip_slash (ud_path ud)
      in case head_object s3 (ud_host ud) key of
           Returns \<Rightarrow> Inr True
         | RaisesOther x \<Rightarrow> Inl (Propagated x)
         | RaisesClientError code \<Rightarrow>
             (if code = CodeStr ''404''
              then Inl (FetchError (''boto3 failed to find '' @ ud_url ud))
              else if code = CodeInt 403
              then Inl (FetchError (''boto3 does not have access to '' @ ud_url ud))
              else Inl (FetchError (''boto3 failed to access '' @ ud_url ud
                                     @ ''. Error code: '' @ str_code code))))"

text \<open>
  In \<open>_boto_download\<close> the first \<open>head_object\<close> call only sizes the progress callback, and
  every exception it raises is swallowed; the result depends on \<open>download_file\<close> alone.
\<close>

definition boto_download :: "s3_client \<Rightarrow> urldata \<Rightarrow> fetch_exn + bool" where
  "boto_download s3 ud =
     (let key = lstrip_slash (ud_path ud)
      in case download_file s3 (ud_host ud) key (ud_localpath ud) of
           Returns \<Rightarrow> Inr True
         | RaisesOther x \<Rightarrow> Inl (Propagated x)
         | RaisesClientError code \<Rightarrow>
             (if code = CodeStr ''404''
              then Inl (FetchError (''boto3 failed to find '' @ ud_url ud))
              else if code = CodeInt 403
              then Inl (FetchError (''boto3 does not have access to '' @ ud_url ud))
              else Inl (FetchError (''boto3 failed to download '' @ ud_url ud
                                     @ ''. Error code: '' @ str_code code))))"

section \<open>Example inputs\<close>

text \<open>
  A regular file (mode \<open>0o100644\<close>), a file system where \<open>foo.bb\<close> exists only under
  \<open>/b\<close>, and a stat cache holding an outdated entry for it.
\<close>

definition foo_stat :: stat_result where
  "foo_stat = \<lparr>st_mode = 33188, st_ino = 42, st_size = 120, st_mtime_ns = 1700000000\<rparr>"

definition only_in_b :: filesystem where
  "only_in_b = [''/b/foo.bb'' \<mapsto> foo_stat]"

definition no_files :: filesystem where
  "no_files = Map.empty"


definition stale_state :: stat_state where
  "stale_state = \<lparr>mtime_cache = [''/b/foo.bb'' \<mapsto> Fingerprint 1 2 3], stat_calls = []\<rparr>"

text \<open>
  Two environments with working directory \<open>/b\<close>, one with the file and one after its
  removal, and a context with search path \<open>/a:/b\<close> and no dependency recorded yet.
\<close>

definition conf_env :: env where
  "conf_env = \<lparr>filesys = only_in_b, getcwd = ''/b''\<rparr>"

definition gone_env :: env where
  "gone_env = \<lparr>filesys = no_files, getcwd = ''/b''\<rparr>"

definition empty_datastore :: datastore where
  "empty_datastore = \<lparr>var_depends = None, var_BBPATH = Some ''/a:/b'', inchistory = []\<rparr>"

text \<open>
  Three handlers: one for \<open>.conf\<close> files only, and two that accept every path. Each
  entry point returns its own tag followed by the inclusion chain it was called in.
\<close>

definition handler_conf :: "(path list) handler" where
  "handler_conf = \<lparr>h_supports = (\<lambda>fn d. endswith fn ''.conf''),
                   h_handle = (\<lambda>fn d incl baseconfig. (Inr (''conf'' # inchistory d), d))\<rparr>"

definition handler_A :: "(path list) handler" where
  "handler_A = \<lparr>h_supports = (\<lambda>fn d. True),
                h_handle = (\<lambda>fn d incl baseconfig. (Inr (''A'' # inchistory d), d))\<rparr>"

definition handler_B :: "(path list) handler" where
  "handler_B = \<lparr>h_supports = (\<lambda>fn d. True),
                h_handle = (\<lambda>fn d incl baseconfig. (Inr (''B'' # inchistory d), d))\<rparr>"

text \<open>A function object without annotations.\<close>

definition plain_function :: pyfunc where
  "plain_function = \<lparr>func_name = ''my_function'', bb_vardeps = None, bb_vardepsexclude = None\<rparr>"

text \<open>
  An S3 URL and two clients: botocore reports the HTTP status of a failed \<open>HEAD\<close> request
  as a string, \<open>"404"\<close> or \<open>"403"\<close>.
\<close>

definition bucket_url :: urldata where
  "bucket_url = \<lparr>ud_url = ''s3://bucket/key'', ud_host = ''bucket'', ud_path = ''/key'',
                  ud_localpath = ''/downloads/key''\<rparr>"

definition missing_client :: s3_client where
  "missing_client =
     \<lparr>head_object = (\<lambda>bucket key. RaisesClientError (CodeStr ''404'')),
      download_file = (\<lambda>bucket key filename. RaisesClientError (CodeStr ''404''))\<rparr>"

definition denying_client :: s3_client where
  "denying_client =
     \<lparr>head_object = (\<lambda>bucket key. RaisesClientError (CodeStr ''403'')),
      download_file = (\<lambda>bucket key filename. RaisesClientError (CodeStr ''403''))\<rparr>"

section \<open>Properties of the filename decomposition\<close>

lemma vars_from_file_uncached:
  assumes "mypkg \<noteq> []" and "endswith mypkg ''.bb'' \<or> endswith mypkg ''.bbappend''"
    and "cache mypkg = None"
    and "length (split_chr CHR ''_'' (fst (splitext (basename mypkg)))) > 3"
  shows "fst (vars_from_file mypkg cache) =
     Inl (ParseError ''Unable to generate default variables from filename (too many underscores)''
            mypkg 0)"
  using assms by (simp add: vars_from_file_def Let_def)

lemma vars_from_file_cached:
  assumes "mypkg \<noteq> []" and "endswith mypkg ''.bb'' \<or> endswith mypkg ''.bbappend''"
    and "cache mypkg = Some parts"
  shows "vars_from_file mypkg cache = (Inr parts, cache)"
  using assms by (simp add: vars_from_file_def)

text \<open>
  C1. A recipe filename with more than three underscore-separated segments should raise
  the parse error on every call. On \<open>foo_1_2_3.bb\<close> the first call raises, but it has
  already stored the four segments in the cache, and the second call returns them
  instead of raising.
\<close>

theorem vars_from_file_repeated_call:
  "fst (vars_from_file ''foo_1_2_3.bb'' Map.empty) =
     Inl (ParseError ''Unable to generate default variables from filename (too many underscores)''
            ''foo_1_2_3.bb'' 0)
   \<and> fst (vars_from_file ''foo_1_2_3.bb'' (snd (vars_from_file ''foo_1_2_3.bb'' Map.empty))) =
     Inr [Some ''foo'', Some ''1'', Some ''2'', Some ''3'']"
  by (simp add: vars_from_file_def endswith_def splitext_def basename_def rfind_def Let_def)

section \<open>Properties of the stat cache\<close>

lemma run_op_no_sentinel: "no_sentinel st \<Longrightarrow> no_sentinel (run_op fsys op st)"
  by (cases op)
     (auto simp: no_sentinel_def cached_mtime_def cached_mtime_noerror_def check_mtime_def
        update_mtime_def update_cache_def clear_cache_def os_stat_def fingerprint_of_def Let_def
        split: option.splits)

lemma run_ops_no_sentinel: "no_sentinel st \<Longrightarrow> no_sentinel (run_ops ops st)"
  by (induction ops arbitrary: st) (auto simp: run_op_no_sentinel)

lemma init_no_sentinel: "no_sentinel init_stat_state"
  by (simp add: no_sentinel_def init_stat_state_def)

text \<open>
  C2, as stated, fails: when the stat fails, \<open>check_mtime\<close> does not touch the cache.
  With an outdated entry for a path that no longer exists, the entry survives the call
  and differs from the path's current fingerprint.
\<close>

theorem check_mtime_failed_stat_counterexample:
  "mtime_cache (snd (check_mtime no_files ''/b/foo.bb'' Absent stale_state)) ''/b/foo.bb''
     \<noteq> Some (current_fingerprint no_files ''/b/foo.bb'')"
  by (simp add: check_mtime_def os_stat_def current_fingerprint_def stale_state_def no_files_def)

lemma check_mtime_failed_stat:
  "fsys f = None \<Longrightarrow> mtime_cache (snd (check_mtime fsys f expected st)) = mtime_cache st"
  by (simp add: check_mtime_def os_stat_def)

text \<open>
  C2, amended. \<open>check_mtime\<close> stats the path once and returns true iff the current
  fingerprint (the sentinel when the stat fails) equals the expected one; when the stat
  succeeds, the cache entry of the path becomes the current fingerprint and no other
  entry changes.
\<close>

theorem check_mtime_effect:
  "fst (check_mtime fsys f expected st) = (current_fingerprint fsys f = expected)
   \<and> (fsys f = Some res \<longrightarrow>
        mtime_cache (snd (check_mtime fsys f expected st)) =
          (mtime_cache st)(f \<mapsto> current_fingerprint fsys f))
   \<and> stat_calls (snd (check_mtime fsys f expected st)) = stat_calls st @ [f]"
  by (simp add: check_mtime_def os_stat_def current_fingerprint_def Let_def split: option.splits)

theorem check_mtime_effect_witness:
  "only_in_b ''/b/foo.bb'' = Some foo_stat
   \<and> fst (check_mtime only_in_b ''/b/foo.bb'' (Fingerprint 1700000000 120 42) stale_state)
   \<and> mtime_cache (snd (check_mtime only_in_b ''/b/foo.bb'' (Fingerprint 1700000000 120 42) stale_state)) =
        [''/b/foo.bb'' \<mapsto> Fingerprint 1700000000 120 42]
   \<and> \<not> fst (check_mtime only_in_b ''/b/foo.bb'' (Fingerprint 1 2 3) stale_state)
   \<and> stat_calls (snd (check_mtime only_in_b ''/b/foo.bb'' (Fingerprint 1700000000 120 42) stale_state)) =
        [''/b/foo.bb'']"
  using check_mtime_effect
          [of only_in_b "''/b/foo.bb''" "Fingerprint 1700000000 120 42" stale_state foo_stat]
        check_mtime_effect [of only_in_b "''/b/foo.bb''" "Fingerprint 1 2 3" stale_state foo_stat]
  by (simp add: only_in_b_def foo_stat_def stale_state_def current_fingerprint_def fingerprint_of_def)





lemma cached_mtime_after_clear:
  "cached_mtime fsys f (clear_cache st) =
     (case fsys f of
        None \<Rightarrow> (Inl OSError, (clear_cache st)\<lparr>stat_calls := stat_calls st @ [f]\<rparr>)
      | Some res \<Rightarrow>
          (Inr (fingerprint_of res),
           \<lparr>mtime_cache = [f \<mapsto> fingerprint_of res], stat_calls = stat_calls st @ [f]\<rparr>))"
  by (simp add: cached_mtime_def clear_cache_def os_stat_def split: option.splits)



text \<open>
  C7. Checking a path against the fingerprint that \<open>update_mtime\<close> has just returned,
  with the file system unchanged in between, returns true, whether the path exists or
  not.
\<close>

theorem check_after_update_mtime:
  "fst (check_mtime fsys f (fst (update_mtime fsys f st)) (snd (update_mtime fsys f st)))"
  by (simp add: check_mtime_def update_mtime_def os_stat_def split: option.splits)

text \<open>
  C10. Starting from the empty cache, no sequence of stat-cache calls, against whatever
  file systems, leaves the sentinel in the cache. The absent-tolerant lookup of an
  uncached path whose stat fails returns the sentinel and inserts nothing, so a later
  lookup stats again and sees a file created in between; \<open>update_mtime\<close> of a path whose
  stat fails returns the sentinel and removes the path's entry.
\<close>

theorem stat_cache_never_holds_sentinel:
  "no_sentinel (run_ops ops init_stat_state)
   \<and> (mtime_cache st f = None \<and> fsys f = None \<longrightarrow>
        cached_mtime_noerror fsys f st = (Absent, st\<lparr>stat_calls := stat_calls st @ [f]\<rparr>))
   \<and> (mtime_cache st f = None \<and> fsys f = None \<and> fsys' f = Some res \<longrightarrow>
        fst (cached_mtime_noerror fsys' f (snd (cached_mtime_noerror fsys f st))) = fingerprint_of res)
   \<and> (fsys f = None \<longrightarrow>
        fst (update_mtime fsys f st) = Absent
        \<and> mtime_cache (snd (update_mtime fsys f st)) = (mtime_cache st)(f := None))"
proof -
  have inv: "no_sentinel (run_ops ops init_stat_state)"
    by (rule run_ops_no_sentinel [OF init_no_sentinel])
  have noerror: "mtime_cache st f = None \<and> fsys f = None \<longrightarrow>
        cached_mtime_noerror fsys f st = (Absent, st\<lparr>stat_calls := stat_calls st @ [f]\<rparr>)"
    by (simp add: cached_mtime_noerror_def os_stat_def)
  have again: "mtime_cache st f = None \<and> fsys f = None \<and> fsys' f = Some res \<longrightarrow>
        fst (cached_mtime_noerror fsys' f (snd (cached_mtime_noerror fsys f st))) = fingerprint_of res"
    by (simp add: cached_mtime_noerror_def os_stat_def)
  have upd: "fsys f = None \<longrightarrow>
        fst (update_mtime fsys f st) = Absent
        \<and> mtime_cache (snd (update_mtime fsys f st)) = (mtime_cache st)(f := None)"
    by (auto simp: update_mtime_def os_stat_def)
  from inv noerror again upd show ?thesis by blast
qed

theorem stat_cache_never_holds_sentinel_witness:
  "no_sentinel (run_ops [(only_in_b, CachedMtimeNoerror ''/a/foo.bb''),
                         (only_in_b, CheckMtime ''/b/foo.bb'' Absent),
                         (no_files, CheckMtime ''/b/foo.bb'' Absent),
                         (no_files, UpdateMtime ''/b/foo.bb'')] init_stat_state)
   \<and> cached_mtime_noerror no_files ''/b/foo.bb'' init_stat_state =
       (Absent, \<lparr>mtime_cache = Map.empty, stat_calls = [''/b/foo.bb'']\<rparr>)
   \<and> fst (cached_mtime_noerror only_in_b ''/b/foo.bb''
            (snd (cached_mtime_noerror no_files ''/b/foo.bb'' init_stat_state))) =
       Fingerprint 1700000000 120 42
   \<and> fst (update_mtime no_files ''/b/foo.bb'' stale_state) = Absent
   \<and> mtime_cache (snd (update_mtime no_files ''/b/foo.bb'' stale_state)) ''/b/foo.bb'' = None"
  using stat_cache_never_holds_sentinel
          [of "[(only_in_b, CachedMtimeNoerror ''/a/foo.bb''),
                (only_in_b, CheckMtime ''/b/foo.bb'' Absent),
                (no_files, CheckMtime ''/b/foo.bb'' Absent),
                (no_files, UpdateMtime ''/b/foo.bb'')]"
              init_stat_state "''/b/foo.bb''" no_files only_in_b foo_stat]
        stat_cache_never_holds_sentinel
          [of "[]" stale_state "''/b/foo.bb''" no_files only_in_b foo_stat]
  by (simp add: init_stat_state_def only_in_b_def foo_stat_def fingerprint_of_def stale_state_def
        cached_mtime_noerror_def os_stat_def no_files_def)

section \<open>Properties of the dependency recorder\<close>

lemma cached_mtime_noerror_again:
  "fst (cached_mtime_noerror fsys p (snd (cached_mtime_noerror fsys p st))) =
     fst (cached_mtime_noerror fsys p st)"
  by (simp add: cached_mtime_noerror_def os_stat_def split: option.splits)

lemma get_depends_update: "get_depends (d\<lparr>var_depends := Some deps\<rparr>) = deps"
  by (simp add: get_depends_def)

lemma mark_dependency_records:
  "(dep_path e f, fst (cached_mtime_noerror (filesys e) (dep_path e f) st))
     \<in> set (get_depends (fst (mark_dependency e d f st)))"
  by (simp add: mark_dependency_def Let_def get_depends_update split: prod.splits)

lemma mark_dependency_mono:
  "set (get_depends d) \<subseteq> set (get_depends (fst (mark_dependency e d f st)))"
  by (auto simp: mark_dependency_def Let_def get_depends_update split: prod.splits)

lemma mark_attempts_mono:
  "set (get_depends d) \<subseteq> set (get_depends (fst (mark_attempts e attempts d st)))"
proof (induction attempts arbitrary: d st)
  case Nil
  show ?case by simp
next
  case (Cons af attempts)
  obtain d1 st1 where m: "mark_dependency e d af st = (d1, st1)"
    by (cases "mark_dependency e d af st")
  have "set (get_depends d) \<subseteq> set (get_depends d1)"
    using mark_dependency_mono [of d e af st] m by simp
  also have "\<dots> \<subseteq> set (get_depends (fst (mark_attempts e attempts d1 st1)))"
    by (rule Cons.IH)
  finally show ?case by (simp add: m)
qed

lemma mark_attempts_records:
  "af \<in> set attempts \<Longrightarrow>
   \<exists>fp. (dep_path e af, fp) \<in> set (get_depends (fst (mark_attempts e attempts d st)))"
proof (induction attempts arbitrary: d st)
  case Nil
  then show ?case by simp
next
  case (Cons x attempts)
  obtain d1 st1 where m: "mark_dependency e d x st = (d1, st1)"
    by (cases "mark_dependency e d x st")
  show ?case
  proof (cases "af = x")
    case True
    have "(dep_path e x, fst (cached_mtime_noerror (filesys e) (dep_path e x) st))
            \<in> set (get_depends d1)"
      using mark_dependency_records [of e x st d] m by simp
    with mark_attempts_mono [of d1 e attempts st1] True m show ?thesis by auto
  next
    case False
    with Cons.prems have "af \<in> set attempts" by simp
    from Cons.IH [OF this, of d1 st1] m show ?thesis by simp
  qed
qed

lemma mark_dependency_distinct:
  "distinct (get_depends d) \<Longrightarrow> distinct (get_depends (fst (mark_dependency e d f st)))"
  by (simp add: mark_dependency_def get_depends_update Let_def split: prod.splits)

text \<open>
  C6. Recording the same path twice, against the same file system, computes the same
  fingerprint both times; the second call leaves the context as the first one left it,
  and the dependency list then holds exactly one copy of the pair, provided it held at
  most one copy before the first call (as every list built by \<open>mark_dependency\<close> does,
  since it keeps the list free of duplicates).
\<close>

theorem mark_dependency_idempotent:
  assumes once: "count_list (get_depends d)
                   (dep_path e f, fst (cached_mtime_noerror (filesys e) (dep_path e f) st)) \<le> 1"
    and first: "mark_dependency e d f st = (d1, st1)"
    and second: "mark_dependency e d1 f st1 = (d2, st2)"
  shows "fst (cached_mtime_noerror (filesys e) (dep_path e f) st1) =
           fst (cached_mtime_noerror (filesys e) (dep_path e f) st)
         \<and> d2 = d1
         \<and> count_list (get_depends d2)
             (dep_path e f, fst (cached_mtime_noerror (filesys e) (dep_path e f) st)) = 1"
proof -
  let ?p = "dep_path e f"
  let ?fp = "fst (cached_mtime_noerror (filesys e) ?p st)"
  have st1: "st1 = snd (cached_mtime_noerror (filesys e) ?p st)"
    using first by (auto simp: mark_dependency_def Let_def split: prod.splits if_splits)
  have same: "fst (cached_mtime_noerror (filesys e) ?p st1) = ?fp"
    unfolding st1 by (rule cached_mtime_noerror_again)
  have d1: "get_depends d1 = (if (?p, ?fp) \<in> set (get_depends d) then get_depends d
                              else get_depends d @ [(?p, ?fp)])"
    using first
    by (auto simp: mark_dependency_def Let_def get_depends_update split: prod.splits if_splits)
  have mem: "(?p, ?fp) \<in> set (get_depends d1)"
    by (simp add: d1)
  have d2: "d2 = d1"
    using second mem same by (auto simp: mark_dependency_def Let_def split: prod.splits)
  have "count_list (get_depends d1) (?p, ?fp) = 1"
  proof (cases "(?p, ?fp) \<in> set (get_depends d)")
    case True
    then have "count_list (get_depends d) (?p, ?fp) \<noteq> 0"
      by (simp add: count_list_0_iff)
    with once True show ?thesis by (simp add: d1)
  next
    case False
    then show ?thesis by (simp add: d1)
  qed
  with same d2 show ?thesis by simp
qed

theorem mark_dependency_idempotent_witness:
  "mark_dependency conf_env empty_datastore ''./foo.bb'' init_stat_state =
     (empty_datastore\<lparr>var_depends := Some [(''/b/foo.bb'', Fingerprint 1700000000 120 42)]\<rparr>,
      \<lparr>mtime_cache = [''/b/foo.bb'' \<mapsto> Fingerprint 1700000000 120 42], stat_calls = [''/b/foo.bb'']\<rparr>)
   \<and> mark_dependency conf_env
        (empty_datastore\<lparr>var_depends := Some [(''/b/foo.bb'', Fingerprint 1700000000 120 42)]\<rparr>)
        ''./foo.bb''
        \<lparr>mtime_cache = [''/b/foo.bb'' \<mapsto> Fingerprint 1700000000 120 42], stat_calls = [''/b/foo.bb'']\<rparr> =
     (empty_datastore\<lparr>var_depends := Some [(''/b/foo.bb'', Fingerprint 1700000000 120 42)]\<rparr>,
      \<lparr>mtime_cache = [''/b/foo.bb'' \<mapsto> Fingerprint 1700000000 120 42], stat_calls = [''/b/foo.bb'']\<rparr>)
   \<and> count_list
        (get_depends (empty_datastore\<lparr>var_depends := Some [(''/b/foo.bb'', Fingerprint 1700000000 120 42)]\<rparr>))
        (''/b/foo.bb'', Fingerprint 1700000000 120 42) = 1"
proof -
  let ?d1 = "empty_datastore\<lparr>var_depends := Some [(''/b/foo.bb'', Fingerprint 1700000000 120 42)]\<rparr>"
  let ?st1 = "\<lparr>mtime_cache = [''/b/foo.bb'' \<mapsto> Fingerprint 1700000000 120 42], stat_calls = [''/b/foo.bb'']\<rparr>"
  have p: "dep_path conf_env ''./foo.bb'' = ''/b/foo.bb''"
    by (simp add: dep_path_def startswith_def conf_env_def)
  have fp: "cached_mtime_noerror (filesys conf_env) ''/b/foo.bb'' init_stat_state =
              (Fingerprint 1700000000 120 42, ?st1)"
    by (simp add: cached_mtime_noerror_def os_stat_def conf_env_def only_in_b_def foo_stat_def
          init_stat_state_def fingerprint_of_def)
  have once: "count_list (get_depends empty_datastore)
                (dep_path conf_env ''./foo.bb'',
                 fst (cached_mtime_noerror (filesys conf_env) (dep_path conf_env ''./foo.bb'')
                        init_stat_state)) \<le> 1"
    by (simp add: get_depends_def empty_datastore_def)
  have first: "mark_dependency conf_env empty_datastore ''./foo.bb'' init_stat_state = (?d1, ?st1)"
    by (simp add: mark_dependency_def p fp get_depends_def empty_datastore_def Let_def)
  have second: "mark_dependency conf_env ?d1 ''./foo.bb'' ?st1 = (?d1, ?st1)"
    by (simp add: mark_dependency_def p get_depends_def empty_datastore_def
          cached_mtime_noerror_def Let_def)
  from mark_dependency_idempotent [OF once first second] first second p fp
  show ?thesis by simp
qed

section \<open>Properties of path resolution\<close>

lemma which_loop_not_found:
  "\<forall>p\<in>set paths. fsys (path_join p item) = None \<Longrightarrow>
   which_loop fsys paths item hist = ([], hist @ map (\<lambda>p. path_join p item) paths)"
  by (induction paths arbitrary: hist) (auto simp: Let_def path_exists_def)

lemma join_relative: "\<not> isabs fn \<Longrightarrow> path_join ''/a'' fn = ''/a/'' @ fn \<and> path_join ''/b'' fn = ''/b/'' @ fn"
  by (simp add: path_join_def isabs_def endswith_def)

lemma which_a_b:
  assumes "\<not> isabs fn" "fsys (''/a/'' @ fn) = None" "fsys (''/b/'' @ fn) = Some res"
  shows "which fsys (Some ''/a:/b'') fn = (''/b/'' @ fn, [''/a/'' @ fn, ''/b/'' @ fn])"
  using assms join_relative [of fn]
  by (simp add: which_def search_paths_def Let_def path_exists_def)

lemma dep_path_abs: "dep_path e (CHR ''/'' # p) = CHR ''/'' # p"
  by (simp add: dep_path_def startswith_def)

text \<open>
  C3. With search path \<open>/a:/b\<close> and a relative name that exists, as a regular file, only
  under \<open>/b\<close>, \<open>resolve_file\<close> returns the path under \<open>/b\<close> and the context holds a
  dependency pair for each of the two probed candidates (with the sentinel for the one
  under \<open>/a\<close> and the file's fingerprint for the one under \<open>/b\<close> when neither was cached).
  A relative name that exists in no searched directory raises \<open>IOError(ENOENT)\<close> with a
  message that ends in the search path; an absolute path that does not exist raises
  \<open>IOError(ENOENT)\<close> with a message naming that path alone.
\<close>

theorem resolve_file_search:
  "(\<not> isabs fn \<and> var_BBPATH d = Some ''/a:/b'' \<and> filesys e (''/a/'' @ fn) = None
      \<and> filesys e (''/b/'' @ fn) = Some res \<and> S_ISREG (st_mode res) \<longrightarrow>
    fst (resolve_file e fn d st) = Inr (''/b/'' @ fn)
    \<and> (\<exists>fp. (''/a/'' @ fn, fp) \<in> set (get_depends (fst (snd (resolve_file e fn d st)))))
    \<and> (\<exists>fp. (''/b/'' @ fn, fp) \<in> set (get_depends (fst (snd (resolve_file e fn d st)))))
    \<and> (mtime_cache st (''/a/'' @ fn) = None \<and> mtime_cache st (''/b/'' @ fn) = None \<longrightarrow>
         (''/a/'' @ fn, Absent) \<in> set (get_depends (fst (snd (resolve_file e fn d st))))
         \<and> (''/b/'' @ fn, fingerprint_of res)
              \<in> set (get_depends (fst (snd (resolve_file e fn d st))))))
   \<and> (\<not> isabs fn \<and> (\<forall>p\<in>set (search_paths (var_BBPATH d)). filesys e (path_join p fn) = None) \<longrightarrow>
    fst (resolve_file e fn d st) =
      Inl (IOError ENOENT (''file '' @ fn @ '' not found in '' @ py_str (var_BBPATH d))))
   \<and> (isabs fn \<and> filesys e fn = None \<longrightarrow>
    fst (resolve_file e fn d st) = Inl (IOError ENOENT (''file '' @ fn @ '' not found'')))"
proof (intro conjI impI)
  assume h: "\<not> isabs fn \<and> var_BBPATH d = Some ''/a:/b'' \<and> filesys e (''/a/'' @ fn) = None
      \<and> filesys e (''/b/'' @ fn) = Some res \<and> S_ISREG (st_mode res)"
  then have w: "which (filesys e) (var_BBPATH d) fn = (''/b/'' @ fn, [''/a/'' @ fn, ''/b/'' @ fn])"
    using which_a_b [of fn "filesys e" res] by simp
  obtain d1 st1 where m: "mark_attempts e [''/a/'' @ fn, ''/b/'' @ fn] d st = (d1, st1)"
    by (cases "mark_attempts e [''/a/'' @ fn, ''/b/'' @ fn] d st")
  have r: "resolve_file e fn d st = (Inr (''/b/'' @ fn), d1, st1)"
    using h w m by (simp add: resolve_file_def isfile_def)
  show "fst (resolve_file e fn d st) = Inr (''/b/'' @ fn)"
    by (simp add: r)
  show "\<exists>fp. (''/a/'' @ fn, fp) \<in> set (get_depends (fst (snd (resolve_file e fn d st))))"
    using mark_attempts_records [of "''/a/'' @ fn" "[''/a/'' @ fn, ''/b/'' @ fn]" e d st] m
    by (simp add: r dep_path_abs)
  show "\<exists>fp. (''/b/'' @ fn, fp) \<in> set (get_depends (fst (snd (resolve_file e fn d st))))"
    using mark_attempts_records [of "''/b/'' @ fn" "[''/a/'' @ fn, ''/b/'' @ fn]" e d st] m
    by (simp add: r dep_path_abs)
  {
    assume c: "mtime_cache st (''/a/'' @ fn) = None \<and> mtime_cache st (''/b/'' @ fn) = None"
    obtain da sta where ma: "mark_dependency e d (''/a/'' @ fn) st = (da, sta)"
      by (cases "mark_dependency e d (''/a/'' @ fn) st")
    have fa: "cached_mtime_noerror (filesys e) (''/a/'' @ fn) st =
                (Absent, st\<lparr>stat_calls := stat_calls st @ [''/a/'' @ fn]\<rparr>)"
      using h c by (simp add: cached_mtime_noerror_def os_stat_def)
    have sta: "sta = st\<lparr>stat_calls := stat_calls st @ [''/a/'' @ fn]\<rparr>"
      using ma fa by (auto simp: mark_dependency_def Let_def dep_path_abs split: if_splits)
    have ina: "(''/a/'' @ fn, Absent) \<in> set (get_depends da)"
      using mark_dependency_records [of e "''/a/'' @ fn" st d] ma fa by (simp add: dep_path_abs)
    have fb: "fst (cached_mtime_noerror (filesys e) (''/b/'' @ fn) sta) = fingerprint_of res"
      using h c by (simp add: cached_mtime_noerror_def os_stat_def sta)
    have m2: "mark_dependency e da (''/b/'' @ fn) sta = (d1, st1)"
      using m ma by simp (simp split: prod.splits)
    have inb: "(''/b/'' @ fn, fingerprint_of res) \<in> set (get_depends d1)"
      using mark_dependency_records [of e "''/b/'' @ fn" sta da] m2 fb by (simp add: dep_path_abs)
    have "(''/a/'' @ fn, Absent) \<in> set (get_depends d1)"
      using mark_dependency_mono [of da e "''/b/'' @ fn" sta] m2 ina by auto
    with inb have "(''/a/'' @ fn, Absent) \<in> set (get_depends (fst (snd (resolve_file e fn d st))))
         \<and> (''/b/'' @ fn, fingerprint_of res)
              \<in> set (get_depends (fst (snd (resolve_file e fn d st))))"
      by (simp add: r)
  }
  then show "mtime_cache st (''/a/'' @ fn) = None \<and> mtime_cache st (''/b/'' @ fn) = None \<Longrightarrow>
      (''/a/'' @ fn, Absent) \<in> set (get_depends (fst (snd (resolve_file e fn d st))))"
    and "mtime_cache st (''/a/'' @ fn) = None \<and> mtime_cache st (''/b/'' @ fn) = None \<Longrightarrow>
      (''/b/'' @ fn, fingerprint_of res) \<in> set (get_depends (fst (snd (resolve_file e fn d st))))"
    by simp_all
next
  assume h: "\<not> isabs fn \<and> (\<forall>p\<in>set (search_paths (var_BBPATH d)). filesys e (path_join p fn) = None)"
  then have "which (filesys e) (var_BBPATH d) fn =
      ([], map (\<lambda>p. path_join p fn) (search_paths (var_BBPATH d)))"
    using which_loop_not_found [of "search_paths (var_BBPATH d)" "filesys e" fn "[]"]
    by (simp add: which_def)
  with h show "fst (resolve_file e fn d st) =
      Inl (IOError ENOENT (''file '' @ fn @ '' not found in '' @ py_str (var_BBPATH d)))"
    by (simp add: resolve_file_def Let_def split: prod.splits)
next
  assume "isabs fn \<and> filesys e fn = None"
  then show "fst (resolve_file e fn d st) = Inl (IOError ENOENT (''file '' @ fn @ '' not found''))"
    by (simp add: resolve_file_def isfile_def Let_def split: prod.splits)
qed

theorem resolve_file_search_witness:
  "fst (resolve_file conf_env ''foo.bb'' empty_datastore init_stat_state) = Inr ''/b/foo.bb''
   \<and> (''/a/foo.bb'', Absent)
        \<in> set (get_depends (fst (snd (resolve_file conf_env ''foo.bb'' empty_datastore init_stat_state))))
   \<and> (''/b/foo.bb'', Fingerprint 1700000000 120 42)
        \<in> set (get_depends (fst (snd (resolve_file conf_env ''foo.bb'' empty_datastore init_stat_state))))
   \<and> fst (resolve_file gone_env ''foo.bb'' empty_datastore init_stat_state) =
        Inl (IOError ENOENT ''file foo.bb not found in /a:/b'')
   \<and> fst (resolve_file gone_env ''/b/foo.bb'' empty_datastore init_stat_state) =
        Inl (IOError ENOENT ''file /b/foo.bb not found'')"
  using resolve_file_search [of "''foo.bb''" empty_datastore conf_env foo_stat init_stat_state]
        resolve_file_search [of "''foo.bb''" empty_datastore gone_env foo_stat init_stat_state]
        resolve_file_search [of "''/b/foo.bb''" empty_datastore gone_env foo_stat init_stat_state]
  by (simp add: isabs_def startswith_def conf_env_def gone_env_def empty_datastore_def
        only_in_b_def foo_stat_def S_ISREG_def init_stat_state_def fingerprint_of_def
        search_paths_def py_str_def no_files_def)

section \<open>Properties of the dispatcher\<close>

lemma handle_from_first:
  "i < length hs \<Longrightarrow> h_supports (hs ! i) fn d \<Longrightarrow> \<forall>j<i. \<not> h_supports (hs ! j) fn d \<Longrightarrow>
   handle_from k hs fn d incl bc calls =
     (fst (h_handle (hs ! i) fn (include_enter fn d) incl bc),
      include_exit (snd (h_handle (hs ! i) fn (include_enter fn d) incl bc)),
      calls @ [k + i])"
proof (induction hs arbitrary: i k)
  case Nil
  then show ?case by simp
next
  case (Cons h hs)
  show ?case
  proof (cases i)
    case 0
    with Cons.prems show ?thesis by (simp split: prod.splits)
  next
    case (Suc i')
    with Cons.prems have "\<not> h_supports h fn d" by auto
    moreover from Suc Cons.prems have "i' < length hs" "h_supports (hs ! i') fn d"
      "\<forall>j<i'. \<not> h_supports (hs ! j) fn d" by auto
    ultimately show ?thesis using Cons.IH [of i' "Suc k"] Suc by simp
  qed
qed

lemma handle_from_none:
  "\<forall>h\<in>set hs. \<not> h_supports h fn d \<Longrightarrow>
   handle_from k hs fn d incl bc calls = (Inl (ParseError ''not a BitBake file'' fn 0), d, calls)"
  by (induction hs arbitrary: k) auto

text \<open>
  C4. When the handler at registry position \<open>i\<close> accepts the path and no earlier one
  does, \<open>handle\<close> calls that handler's entry point on the context with the path entered
  in the inclusion history, returns its result with the inclusion scope left again, and
  calls no other entry point: the call log is \<open>[i]\<close>. When no registered handler accepts
  the path, it raises \<open>ParseError\<close> carrying the path and calls no entry point.
\<close>

theorem handle_first_match:
  "(i < length handlers \<and> h_supports (handlers ! i) fn d
      \<and> (\<forall>j<i. \<not> h_supports (handlers ! j) fn d) \<longrightarrow>
    handle handlers fn d incl baseconfig =
      (fst (h_handle (handlers ! i) fn (include_enter fn d) incl baseconfig),
       include_exit (snd (h_handle (handlers ! i) fn (include_enter fn d) incl baseconfig)),
       [i]))
   \<and> ((\<forall>h\<in>set handlers. \<not> h_supports h fn d) \<longrightarrow>
    handle handlers fn d incl baseconfig =
      (Inl (ParseError ''not a BitBake file'' fn 0), d, []))"
  using handle_from_first [of i handlers fn d 0 incl baseconfig "[]"]
        handle_from_none [of handlers fn d 0 incl baseconfig "[]"]
  by (simp add: handle_def)

theorem handle_first_match_witness:
  "handle [handler_conf, handler_A, handler_B] ''x.bb'' empty_datastore 0 False =
     (Inr [''A'', ''x.bb''], empty_datastore, [1])
   \<and> handle [handler_conf] ''x.bb'' empty_datastore 0 False =
     (Inl (ParseError ''not a BitBake file'' ''x.bb'' 0), empty_datastore, [])"
  using handle_first_match
          [of 1 "[handler_conf, handler_A, handler_B]" "''x.bb''" empty_datastore 0 False]
        handle_first_match [of 0 "[handler_conf]" "''x.bb''" empty_datastore 0 False]
  by (simp add: handler_conf_def handler_A_def handler_B_def empty_datastore_def
        include_enter_def include_exit_def endswith_def)

section \<open>Properties of the annotations\<close>

text \<open>
  C8. Applying \<open>vardeps\<close> creates the attribute when it is absent and otherwise adds to
  it; two applications leave the union of the earlier set and both name lists. On a
  function without the attribute, names \<open>A, B\<close> and then \<open>B, C\<close> leave \<open>{A, B, C}\<close>.
\<close>

theorem vardeps_union:
  "bb_vardeps (vardeps xs f) = Some ((case bb_vardeps f of None \<Rightarrow> {} | Some s \<Rightarrow> s) \<union> set xs)
   \<and> bb_vardeps (vardeps ys (vardeps xs f)) =
       Some ((case bb_vardeps f of None \<Rightarrow> {} | Some s \<Rightarrow> s) \<union> set xs \<union> set ys)
   \<and> (bb_vardeps f = None \<longrightarrow>
        bb_vardeps (vardeps [B, C] (vardeps [A, B] f)) = Some {A, B, C})"
  by (auto simp: vardeps_def Let_def split: option.splits)

theorem vardeps_union_witness:
  "bb_vardeps plain_function = None
   \<and> bb_vardeps (vardeps [''A'', ''B''] plain_function) = Some {''A'', ''B''}
   \<and> bb_vardeps (vardeps [''B'', ''C''] (vardeps [''A'', ''B''] plain_function)) =
       Some {''A'', ''B'', ''C''}"
  using vardeps_union [of "[''A'', ''B'']" plain_function "[''B'', ''C'']" "''B''" "''C''" "''A''"]
  by (auto simp: plain_function_def)

section \<open>Properties of the S3 fetcher\<close>

text \<open>
  C9. A not-found response and an access-denied response should map to their own
  errors. The code compares the provider's code with the string \<open>"404"\<close> but with the
  integer \<open>403\<close>: the code \<open>"404"\<close> yields the not-found error, while the code \<open>"403"\<close>
  falls through to the generic failure, in the probe and in the fetch.
\<close>

theorem boto_access_denied_is_generic:
  "boto_checkstatus missing_client bucket_url =
     Inl (FetchError ''boto3 failed to find s3://bucket/key'')
   \<and> boto_download missing_client bucket_url =
     Inl (FetchError ''boto3 failed to find s3://bucket/key'')
   \<and> boto_checkstatus denying_client bucket_url =
     Inl (FetchError ''boto3 failed to access s3://bucket/key. Error code: 403'')
   \<and> boto_download denying_client bucket_url =
     Inl (FetchError ''boto3 failed to download s3://bucket/key. Error code: 403'')"
  by (simp add: boto_checkstatus_def boto_download_def missing_client_def denying_client_def
        bucket_url_def lstrip_slash_def str_code_def)

end
